theory Spec2Isabelle
  imports Complex_Main "HOL-Library.Sublist"
begin

section \<open>JavaScript values\<close>

text \<open>
  The adapter in \<^verbatim>\<open>js/gdax.js\<close> works on parsed JSON and on plain JavaScript values.
  A value is one of the constructors below. An object is an association list in key
  order; a lookup takes the first entry of a key. Numbers are exact rationals: the
  rounding, the infinities and the signed zero of IEEE doubles are not modelled, and the
  one non-number that arithmetic on a missing value produces is the constructor
  \<open>NaN\<close>.
\<close>

datatype jsval =
    Undefined
  | Null
  | Bool bool
  | Num rat
  | NaN
  | Str string
  | Arr "jsval list"
  | Obj "(string \<times> jsval) list"

type_synonym jsobj = "(string \<times> jsval) list"

text \<open>\<^verbatim>\<open>o[k]\<close> on an object: the value stored, \<^verbatim>\<open>undefined\<close> for a missing key.\<close>

definition js_get :: "jsobj \<Rightarrow> string \<Rightarrow> jsval" where
  "js_get obj k = (case map_of obj k of None \<Rightarrow> Undefined | Some v \<Rightarrow> v)"

text \<open>\<^verbatim>\<open>k in o\<close>: the key is present, whatever its value.\<close>

definition js_in :: "string \<Rightarrow> jsobj \<Rightarrow> bool" where
  "js_in k obj = (k \<in> set (map fst obj))"

text \<open>\<^verbatim>\<open>a[i]\<close> on an array: \<^verbatim>\<open>undefined\<close> out of range.\<close>

definition js_index :: "jsval list \<Rightarrow> nat \<Rightarrow> jsval" where
  "js_index xs i = (if i < length xs then xs ! i else Undefined)"

text \<open>
  \<^verbatim>\<open>v[k]\<close> on a value that is known to be truthy, for a key that no built-in prototype
  defines: the field of an object, \<^verbatim>\<open>undefined\<close> on anything else.
\<close>

definition js_prop :: "jsval \<Rightarrow> string \<Rightarrow> jsval" where
  "js_prop v k = (case v of Obj obj \<Rightarrow> js_get obj k | _ \<Rightarrow> Undefined)"

text \<open>Truthiness, as \<^verbatim>\<open>if (v)\<close> and \<^verbatim>\<open>!v\<close> test it.\<close>

fun truthy :: "jsval \<Rightarrow> bool" where
  "truthy Undefined = False"
| "truthy Null = False"
| "truthy (Bool b) = b"
| "truthy (Num n) = (n \<noteq> 0)"
| "truthy NaN = False"
| "truthy (Str s) = (s \<noteq> [])"
| "truthy (Arr xs) = True"
| "truthy (Obj obj) = True"

text \<open>
  The language runtime. Conversions of strings, arrays and objects to numbers and of
  values to strings, and the JSON parser, are built into the language and are taken as
  parameters; \<open>JSON_parse\<close> yields \<open>None\<close> where \<^verbatim>\<open>JSON.parse\<close> throws a SyntaxError.
\<close>

record runtime =
  ToNumber :: "jsval \<Rightarrow> jsval"
  ToString :: "jsval \<Rightarrow> string"
  JSON_parse :: "string \<Rightarrow> jsval option"

text \<open>The numeric value of an operand of \<^verbatim>\<open>*\<close> and \<^verbatim>\<open>-\<close>.\<close>

definition js_toNumber :: "runtime \<Rightarrow> jsval \<Rightarrow> jsval" where
  "js_toNumber rt v =
     (case v of
        Undefined \<Rightarrow> NaN
      | Null \<Rightarrow> Num 0
      | Bool b \<Rightarrow> Num (if b then 1 else 0)
      | Num n \<Rightarrow> Num n
      | NaN \<Rightarrow> NaN
      | _ \<Rightarrow> (case ToNumber rt v of Num n \<Rightarrow> Num n | _ \<Rightarrow> NaN))"

definition js_mul :: "runtime \<Rightarrow> jsval \<Rightarrow> jsval \<Rightarrow> jsval" where
  "js_mul rt a b =
     (case (js_toNumber rt a, js_toNumber rt b) of
        (Num x, Num y) \<Rightarrow> Num (x * y)
      | _ \<Rightarrow> NaN)"

definition js_sub :: "runtime \<Rightarrow> jsval \<Rightarrow> jsval \<Rightarrow> jsval" where
  "js_sub rt a b =
     (case (js_toNumber rt a, js_toNumber rt b) of
        (Num x, Num y) \<Rightarrow> Num (x - y)
      | _ \<Rightarrow> NaN)"

text \<open>The string form of an operand of \<^verbatim>\<open>+\<close> whose other operand is a string.\<close>

definition js_str :: "runtime \<Rightarrow> jsval \<Rightarrow> string" where
  "js_str rt v = (case v of Str t \<Rightarrow> t | _ \<Rightarrow> ToString rt v)"

text \<open>\<^verbatim>\<open>o[k] = v\<close>: the entry is replaced in place, a new key goes to the end.\<close>

fun js_set :: "jsobj \<Rightarrow> string \<Rightarrow> jsval \<Rightarrow> jsobj" where
  "js_set [] k v = [(k, v)]"
| "js_set ((k', v') # rest) k v = (if k' = k then (k, v) # rest else (k', v') # js_set rest k v)"

section \<open>Errors, the exchange object and the inherited methods\<close>

text \<open>The error classes the adapter throws, each with its message.\<close>

datatype error =
    ExchangeError string
  | InvalidOrder string
  | InsufficientFunds string
  | AuthenticationError string
  | NotSupported string
  | TypeError
  | SyntaxError

text \<open>\<^verbatim>\<open>v[k]\<close> with no guard before it: a TypeError on \<^verbatim>\<open>undefined\<close> and \<^verbatim>\<open>null\<close>.\<close>

definition js_member :: "jsval \<Rightarrow> string \<Rightarrow> error + jsval" where
  "js_member v k = (if v = Undefined \<or> v = Null then Inl TypeError else Inr (js_prop v k))"

text \<open>
  The fields of \<^verbatim>\<open>this\<close> that the adapter reads. \<^verbatim>\<open>describe ()\<close> sets their defaults and the
  caller may override them: \<open>exchange_id\<close> is \<^verbatim>\<open>this.id\<close>, \<open>fees_trading\<close> is
  \<^verbatim>\<open>this.fees['trading']\<close> and \<open>urls_api\<close> is \<^verbatim>\<open>this.urls['api']\<close>. \<open>markets_by_id\<close> is
  the index that the base class fills when it loads the markets: \<open>None\<close> where the key
  is not \<^verbatim>\<open>in\<close> it.
\<close>

record exchange =
  exchange_id :: string
  fees_trading :: jsobj
  timeframes :: jsobj
  urls_api :: string
  markets_by_id :: "jsval \<Rightarrow> jsval option"
  apiKey :: jsval
  secret :: jsval
  password :: jsval

text \<open>
  The methods inherited from \<^verbatim>\<open>./base/Exchange\<close>. Their code is not part of the adapter;
  every function of the adapter takes them as a parameter. \<open>this_market\<close> is
  \<^verbatim>\<open>this.market (symbol)\<close>; it, \<open>checkRequiredCredentials\<close> and \<open>precisionFromString\<close>,
  which is handed \<^verbatim>\<open>undefined\<close> for a market without a \<^verbatim>\<open>quote_increment\<close>, may throw. \<open>sum_js\<close> is
  \<^verbatim>\<open>this.sum\<close> and \<open>extend_js\<close> is \<^verbatim>\<open>this.extend\<close>, on two arguments. Binary data is
  a string of bytes.
\<close>

record base =
  safeFloat :: "jsobj \<Rightarrow> string \<Rightarrow> jsval"
  safeString :: "jsobj \<Rightarrow> jsval \<Rightarrow> jsval \<Rightarrow> jsval"
  precisionFromString :: "jsval \<Rightarrow> error + jsval"
  parse8601 :: "jsval \<Rightarrow> jsval"
  iso8601 :: "jsval \<Rightarrow> jsval"
  YmdHMS :: "jsval \<Rightarrow> jsval"
  sum_js :: "jsval \<Rightarrow> jsval \<Rightarrow> jsval"
  extend_js :: "jsobj \<Rightarrow> jsobj \<Rightarrow> jsobj"
  omit :: "jsobj \<Rightarrow> string list \<Rightarrow> jsobj"
  extractParams :: "string \<Rightarrow> string list"
  implodeParams :: "string \<Rightarrow> jsobj \<Rightarrow> string"
  urlencode :: "jsobj \<Rightarrow> string"
  json :: "jsval \<Rightarrow> string"
  this_market :: "jsval \<Rightarrow> error + jsval"
  parseOHLCVs :: "jsval \<Rightarrow> jsval \<Rightarrow> string \<Rightarrow> jsval \<Rightarrow> jsval \<Rightarrow> jsval"
  checkRequiredCredentials :: "exchange \<Rightarrow> error option"
  base64ToBinary :: "jsval \<Rightarrow> string"
  encode :: "string \<Rightarrow> string"
  decode :: "string \<Rightarrow> string"
  hmac :: "string \<Rightarrow> string \<Rightarrow> string \<Rightarrow> string \<Rightarrow> string"

text \<open>
  The transport and the market cache, over a state \<open>'w\<close> of the outside world:
  \<open>loadMarkets\<close> is \<^verbatim>\<open>await this.loadMarkets ()\<close> and \<open>api_call name params\<close> is
  \<^verbatim>\<open>await this[name] (params)\<close>, one HTTP request to the endpoint of that name. Each
  returns the response or the error thrown, and the new state. The products endpoint,
  \<^verbatim>\<open>await this.publicGetProducts ()\<close>, answers with an array of objects.
\<close>

record 'w io =
  loadMarkets :: "'w \<Rightarrow> (error + unit) \<times> 'w"
  publicGetProducts :: "'w \<Rightarrow> (error + jsobj list) \<times> 'w"
  api_call :: "string \<Rightarrow> jsobj \<Rightarrow> 'w \<Rightarrow> (error + jsval) \<times> 'w"

text \<open>The tables of \<^verbatim>\<open>describe ()\<close> that the functions below read.\<close>

definition describe_timeframes :: jsobj where
  "describe_timeframes =
     [ (''1m'', Num 60), (''5m'', Num 300), (''15m'', Num 900), (''30m'', Num 1800),
       (''1h'', Num 3600), (''2h'', Num 7200), (''4h'', Num 14400), (''12h'', Num 43200),
       (''1d'', Num 86400), (''1w'', Num 604800), (''1M'', Num 2592000),
       (''1y'', Num 31536000) ]"

definition describe_fees_trading :: jsobj where
  "describe_fees_trading =
     [ (''tierBased'', Bool True), (''percentage'', Bool True),
       (''maker'', Num 0), (''taker'', Num (0.25 / 100)) ]"

section \<open>Trades\<close>

text \<open>
  \<^verbatim>\<open>parseTrade (trade, market)\<close> on a payload that is an object. The source assigns to
  \<^verbatim>\<open>market\<close>: \<open>market0\<close> is the argument and \<open>market1\<close> the variable after the lookup.
  The result is the object literal it returns, key by key.
\<close>

definition parseTrade :: "base \<Rightarrow> exchange \<Rightarrow> jsobj \<Rightarrow> jsval \<Rightarrow> jsval" where
  "parseTrade b ex trade market0 =
     (let timestamp =
            (if js_in ''time'' trade then parse8601 b (js_get trade ''time'')
             else if js_in ''created_at'' trade then parse8601 b (js_get trade ''created_at'')
             else Undefined);
          datetime = (if timestamp \<noteq> Undefined then iso8601 b timestamp else Undefined);
          side = (if js_get trade ''side'' = Str ''buy'' then Str ''sell'' else Str ''buy'');
          market1 =
            (if \<not> truthy market0 then
               (if js_in ''product_id'' trade then
                  (case markets_by_id ex (js_get trade ''product_id'') of
                     Some m \<Rightarrow> m
                   | None \<Rightarrow> market0)
                else market0)
             else market0);
          symbol = (if truthy market1 then js_prop market1 ''symbol'' else Undefined);
          fee =
            (if js_in ''fill_fees'' trade then
               Obj [ (''cost'', safeFloat b trade ''fill_fees''),
                     (''currency'', if truthy market1 then js_prop market1 ''quote'' else Undefined),
                     (''rate'', Undefined) ]
             else Undefined);
          type1 =
            (if js_in ''liquidity'' trade then
               (if js_get trade ''liquidity'' = Str ''T'' then Str ''Taker'' else Str ''Maker'')
             else Undefined);
          id1 = safeString b trade (Str ''trade_id'') Undefined;
          orderId = safeString b trade (Str ''order_id'') Undefined
      in Obj [ (''id'', id1),
               (''order'', orderId),
               (''info'', Obj trade),
               (''timestamp'', timestamp),
               (''datetime'', datetime),
               (''symbol'', symbol),
               (''type'', type1),
               (''side'', side),
               (''price'', safeFloat b trade ''price''),
               (''amount'', safeFloat b trade ''size''),
               (''fee'', fee) ])"

section \<open>Orders\<close>

text \<open>
  \<^verbatim>\<open>parseOrder (order, market)\<close> on a payload that is an object. \<open>amount0\<close>, \<open>amount1\<close>
  and \<open>amount\<close> are the variable \<^verbatim>\<open>amount\<close> after each of its three assignments.
\<close>

definition parseOrderStatus :: "base \<Rightarrow> jsval \<Rightarrow> jsval" where
  "parseOrderStatus b status =
     (let statuses =
            [ (''pending'', Str ''open''),
              (''active'', Str ''open''),
              (''open'', Str ''open''),
              (''done'', Str ''closed''),
              (''canceled'', Str ''canceled'') ]
      in safeString b statuses status status)"

definition parseOrder :: "runtime \<Rightarrow> base \<Rightarrow> exchange \<Rightarrow> jsobj \<Rightarrow> jsval \<Rightarrow> jsval" where
  "parseOrder rt b ex order market0 =
     (let timestamp = parse8601 b (js_get order ''created_at'');
          market1 =
            (if \<not> truthy market0 then
               (case markets_by_id ex (js_get order ''product_id'') of
                  Some m \<Rightarrow> m
                | None \<Rightarrow> market0)
             else market0);
          status = parseOrderStatus b (js_get order ''status'');
          price = safeFloat b order ''price'';
          amount0 = safeFloat b order ''size'';
          amount1 = (if amount0 = Undefined then safeFloat b order ''funds'' else amount0);
          amount = (if amount1 = Undefined then safeFloat b order ''specified_funds'' else amount1);
          filled = safeFloat b order ''filled_size'';
          remaining =
            (if amount \<noteq> Undefined then
               (if filled \<noteq> Undefined then js_sub rt amount filled else Undefined)
             else Undefined);
          cost = safeFloat b order ''executed_value'';
          fee = Obj [ (''cost'', safeFloat b order ''fill_fees''),
                      (''currency'', Undefined),
                      (''rate'', Undefined) ];
          symbol = (if truthy market1 then js_prop market1 ''symbol'' else Undefined)
      in Obj [ (''id'', js_get order ''id''),
               (''info'', Obj order),
               (''timestamp'', timestamp),
               (''datetime'', iso8601 b timestamp),
               (''status'', status),
               (''symbol'', symbol),
               (''type'', js_get order ''type''),
               (''side'', js_get order ''side''),
               (''price'', price),
               (''cost'', cost),
               (''amount'', amount),
               (''filled'', filled),
               (''remaining'', remaining),
               (''fee'', fee) ])"

section \<open>Markets\<close>

text \<open>
  The body of the loop of \<^verbatim>\<open>fetchMarkets\<close>: the entry pushed for one market, or the
  error that \<open>precisionFromString\<close> throws, which ends the loop and the function.
\<close>

definition fetchMarkets_entry ::
  "runtime \<Rightarrow> base \<Rightarrow> exchange \<Rightarrow> jsobj \<Rightarrow> error + jsobj" where
  "fetchMarkets_entry rt b ex mkt =
     (let id1 = js_get mkt ''id'';
          base1 = js_get mkt ''base_currency'';
          quote = js_get mkt ''quote_currency'';
          symbol = Str (js_str rt base1 @ ''/'' @ js_str rt quote);
          priceLimits = Obj [ (''min'', safeFloat b mkt ''quote_increment''),
                              (''max'', Undefined) ]
      in case precisionFromString b (safeString b mkt (Str ''quote_increment'') Undefined) of
           Inl e \<Rightarrow> Inl e
         | Inr price_precision \<Rightarrow>
             (let precision = Obj [ (''amount'', Num 8), (''price'', price_precision) ];
                  taker0 = js_get (fees_trading ex) ''taker'';
                  taker =
                    (if base1 = Str ''ETH'' \<or> base1 = Str ''LTC'' then Num 0.003 else taker0);
                  active = Bool (js_get mkt ''status'' = Str ''online'')
              in Inr (extend_js b (fees_trading ex)
                   [ (''id'', id1),
                     (''symbol'', symbol),
                     (''base'', base1),
                     (''quote'', quote),
                     (''precision'', precision),
                     (''limits'',
                        Obj [ (''amount'',
                                 Obj [ (''min'', safeFloat b mkt ''base_min_size''),
                                       (''max'', safeFloat b mkt ''base_max_size'') ]),
                              (''price'', priceLimits),
                              (''cost'',
                                 Obj [ (''min'', safeFloat b mkt ''min_market_funds''),
                                       (''max'', safeFloat b mkt ''max_market_funds'') ]) ]),
                     (''taker'', taker),
                     (''active'', active),
                     (''info'', Obj mkt) ])))"

text \<open>The loop over the markets, \<open>result\<close> growing at its end.\<close>

fun fetchMarkets_loop ::
  "runtime \<Rightarrow> base \<Rightarrow> exchange \<Rightarrow> jsobj list \<Rightarrow> jsval list \<Rightarrow> error + jsval list" where
  "fetchMarkets_loop rt b ex [] result = Inr result"
| "fetchMarkets_loop rt b ex (mkt # rest) result =
     (case fetchMarkets_entry rt b ex mkt of
        Inl e \<Rightarrow> Inl e
      | Inr entry \<Rightarrow> fetchMarkets_loop rt b ex rest (result @ [Obj entry]))"

definition fetchMarkets ::
  "'w io \<Rightarrow> runtime \<Rightarrow> base \<Rightarrow> exchange \<Rightarrow> 'w \<Rightarrow> (error + jsval) \<times> 'w" where
  "fetchMarkets io rt b ex w =
     (case publicGetProducts io w of
        (Inl e, w1) \<Rightarrow> (Inl e, w1)
      | (Inr markets, w1) \<Rightarrow>
          (case fetchMarkets_loop rt b ex markets [] of
             Inl e \<Rightarrow> (Inl e, w1)
           | Inr result \<Rightarrow> (Inr (Arr result), w1)))"

section \<open>Candles\<close>

text \<open>
  \<^verbatim>\<open>parseOHLCV (ohlcv, market, timeframe, since, limit)\<close>: the last four arguments are
  accepted and not read.
\<close>

definition parseOHLCV ::
  "runtime \<Rightarrow> jsval list \<Rightarrow> jsval \<Rightarrow> jsval \<Rightarrow> jsval \<Rightarrow> jsval \<Rightarrow> jsval list" where
  "parseOHLCV rt ohlcv market timeframe since limit =
     [ js_mul rt (js_index ohlcv 0) (Num 1000),
       js_index ohlcv 3,
       js_index ohlcv 2,
       js_index ohlcv 1,
       js_index ohlcv 4,
       js_index ohlcv 5 ]"

text \<open>
  The request of \<^verbatim>\<open>fetchOHLCV\<close> before the caller's \<open>params\<close> are merged in, and the
  limit after its default: the part of the function between the market lookup and the
  call of the endpoint. \<open>mid\<close> is \<^verbatim>\<open>market['id']\<close>.
\<close>

definition fetchOHLCV_request ::
  "runtime \<Rightarrow> base \<Rightarrow> exchange \<Rightarrow> jsval \<Rightarrow> string \<Rightarrow> jsval \<Rightarrow> jsval \<Rightarrow> jsobj \<times> jsval" where
  "fetchOHLCV_request rt b ex mid timeframe since limit =
     (let granularity = js_get (timeframes ex) timeframe;
          request = [ (''id'', mid), (''granularity'', granularity) ]
      in if since \<noteq> Undefined then
           (let request1 = js_set request ''start'' (YmdHMS b since);
                limit1 = (if limit = Undefined then Num 350 else limit);
                request2 =
                  js_set request1 ''end''
                    (YmdHMS b
                       (sum_js b (js_mul rt (js_mul rt limit1 granularity) (Num 1000)) since))
            in (request2, limit1))
         else (request, limit))"

definition fetchOHLCV ::
  "'w io \<Rightarrow> runtime \<Rightarrow> base \<Rightarrow> exchange \<Rightarrow> jsval \<Rightarrow> string \<Rightarrow> jsval \<Rightarrow> jsval \<Rightarrow> jsobj
     \<Rightarrow> 'w \<Rightarrow> (error + jsval) \<times> 'w" where
  "fetchOHLCV io rt b ex symbol timeframe since limit params w =
     (case loadMarkets io w of
        (Inl e, w1) \<Rightarrow> (Inl e, w1)
      | (Inr u, w1) \<Rightarrow>
          (case this_market b symbol of
             Inl e \<Rightarrow> (Inl e, w1)
           | Inr mkt \<Rightarrow>
               (case js_member mkt ''id'' of
                  Inl e \<Rightarrow> (Inl e, w1)
                | Inr mid \<Rightarrow>
                    (case fetchOHLCV_request rt b ex mid timeframe since limit of
                       (request, limit1) \<Rightarrow>
                         (case api_call io ''publicGetProductsIdCandles''
                                 (extend_js b request params) w1 of
                            (Inl e, w2) \<Rightarrow> (Inl e, w2)
                          | (Inr response, w2) \<Rightarrow>
                              (Inr (parseOHLCVs b response mkt timeframe since limit1), w2))))))"

section \<open>Deposits and withdrawals\<close>

text \<open>
  \<^verbatim>\<open>deposit (currency, amount, address, params)\<close> and
  \<^verbatim>\<open>withdraw (currency, amount, address, tag, params)\<close>. The name of the endpoint is
  built by appending to \<^verbatim>\<open>method\<close>; \<open>deposit\<close> throws where the source has no endpoint to
  append.
\<close>

definition deposit ::
  "'w io \<Rightarrow> base \<Rightarrow> exchange \<Rightarrow> jsval \<Rightarrow> jsval \<Rightarrow> jsval \<Rightarrow> jsobj \<Rightarrow> 'w
     \<Rightarrow> (error + jsval) \<times> 'w" where
  "deposit io b ex currency amount address params w =
     (case loadMarkets io w of
        (Inl e, w1) \<Rightarrow> (Inl e, w1)
      | (Inr u, w1) \<Rightarrow>
          (let request = [ (''currency'', currency), (''amount'', amount) ];
               method0 = ''privatePostDeposits''
           in case (if js_in ''payment_method_id'' params then
                      Inr (method0 @ ''PaymentMethod'')
                    else if js_in ''coinbase_account_id'' params then
                      Inr (method0 @ ''CoinbaseAccount'')
                    else
                      Inl (NotSupported (exchange_id ex @
                        '' deposit() requires one of `coinbase_account_id` or `payment_method_id` extra params''))) of
                Inl e \<Rightarrow> (Inl e, w1)
              | Inr method \<Rightarrow>
                  (case api_call io method (extend_js b request params) w1 of
                     (Inl e, w2) \<Rightarrow> (Inl e, w2)
                   | (Inr response, w2) \<Rightarrow>
                       if \<not> truthy response then
                         (Inl (ExchangeError
                            (exchange_id ex @ '' deposit() error: '' @ json b response)), w2)
                       else
                         (Inr (Obj [ (''info'', response),
                                     (''id'', js_prop response ''id'') ]), w2))))"

definition withdraw ::
  "'w io \<Rightarrow> base \<Rightarrow> exchange \<Rightarrow> jsval \<Rightarrow> jsval \<Rightarrow> jsval \<Rightarrow> jsval \<Rightarrow> jsobj \<Rightarrow> 'w
     \<Rightarrow> (error + jsval) \<times> 'w" where
  "withdraw io b ex currency amount address tag params w =
     (case loadMarkets io w of
        (Inl e, w1) \<Rightarrow> (Inl e, w1)
      | (Inr u, w1) \<Rightarrow>
          (let request = [ (''currency'', currency), (''amount'', amount) ];
               method0 = ''privatePostWithdrawals'';
               (method, request1) =
                 (if js_in ''payment_method_id'' params then
                    (method0 @ ''PaymentMethod'', request)
                  else if js_in ''coinbase_account_id'' params then
                    (method0 @ ''CoinbaseAccount'', request)
                  else
                    (method0 @ ''Crypto'', js_set request ''crypto_address'' address))
           in case api_call io method (extend_js b request1 params) w1 of
                (Inl e, w2) \<Rightarrow> (Inl e, w2)
              | (Inr response, w2) \<Rightarrow>
                  if \<not> truthy response then
                    (Inl (ExchangeError
                       (exchange_id ex @ '' withdraw() error: '' @ json b response)), w2)
                  else
                    (Inr (Obj [ (''info'', response),
                                (''id'', js_prop response ''id'') ]), w2)))"

section \<open>Signing\<close>

text \<open>
  \<^verbatim>\<open>sign (path, api, method, params, headers, body)\<close>, with the nonce drawn by
  \<^verbatim>\<open>this.nonce ().toString ()\<close> as an argument. Its local variables \<^verbatim>\<open>query\<close>,
  \<^verbatim>\<open>request\<close>, \<^verbatim>\<open>payload\<close> and \<^verbatim>\<open>what\<close> are definitions of their own, so that a
  property can speak of the string that is signed.
\<close>

definition sign_query :: "base \<Rightarrow> string \<Rightarrow> jsobj \<Rightarrow> jsobj" where
  "sign_query b path params = omit b params (extractParams b path)"

definition sign_request :: "base \<Rightarrow> string \<Rightarrow> string \<Rightarrow> jsobj \<Rightarrow> string" where
  "sign_request b path method params =
     (let request = ''/'' @ implodeParams b path params;
          query = sign_query b path params
      in if method = ''GET'' then
           (if query \<noteq> [] then request @ ''?'' @ urlencode b query else request)
         else request)"

text \<open>
  \<^verbatim>\<open>payload\<close> starts as the empty string and is set, together with \<^verbatim>\<open>body\<close>, only for
  a method other than GET with a non-empty query.
\<close>

definition sign_payload :: "base \<Rightarrow> string \<Rightarrow> string \<Rightarrow> jsobj \<Rightarrow> string" where
  "sign_payload b path method params =
     (let query = sign_query b path params
      in if method \<noteq> ''GET'' then
           (if query \<noteq> [] then json b (Obj query) else [])
         else [])"

definition sign_body :: "base \<Rightarrow> string \<Rightarrow> string \<Rightarrow> jsobj \<Rightarrow> jsval \<Rightarrow> jsval" where
  "sign_body b path method params body =
     (let query = sign_query b path params
      in if method \<noteq> ''GET'' then
           (if query \<noteq> [] then Str (json b (Obj query)) else body)
         else body)"

definition sign_what :: "base \<Rightarrow> string \<Rightarrow> string \<Rightarrow> string \<Rightarrow> jsobj \<Rightarrow> string" where
  "sign_what b nonce path method params =
     nonce @ method @ sign_request b path method params @ sign_payload b path method params"

definition sign ::
  "base \<Rightarrow> exchange \<Rightarrow> string \<Rightarrow> string \<Rightarrow> string \<Rightarrow> string \<Rightarrow> jsobj \<Rightarrow> jsval \<Rightarrow> jsval
     \<Rightarrow> error + jsval" where
  "sign b ex nonce path api method params headers body =
     (let request = sign_request b path method params;
          url = urls_api ex @ request
      in if api = ''private'' then
           (case checkRequiredCredentials b ex of
              Some e \<Rightarrow> Inl e
            | None \<Rightarrow>
                (let body1 = sign_body b path method params body;
                     what = sign_what b nonce path method params;
                     secret1 = base64ToBinary b (secret ex);
                     signature = hmac b (encode b what) secret1 ''sha256'' ''base64'';
                     headers1 =
                       Obj [ (''CB-ACCESS-KEY'', apiKey ex),
                             (''CB-ACCESS-SIGN'', Str (decode b signature)),
                             (''CB-ACCESS-TIMESTAMP'', Str nonce),
                             (''CB-ACCESS-PASSPHRASE'', password ex),
                             (''Content-Type'', Str ''application/json'') ]
                 in Inr (Obj [ (''url'', Str url),
                               (''method'', Str method),
                               (''body'', body1),
                               (''headers'', headers1) ])))
         else
           Inr (Obj [ (''url'', Str url),
                      (''method'', Str method),
                      (''body'', body),
                      (''headers'', headers) ]))"

section \<open>Classifying errors\<close>

text \<open>
  \<^verbatim>\<open>s.indexOf (needle)\<close> on a string: the position of the first occurrence, \<open>-1\<close> when
  there is none.
\<close>

fun indexOf_from :: "string \<Rightarrow> string \<Rightarrow> int \<Rightarrow> int" where
  "indexOf_from needle [] i = (if needle = [] then i else - 1)"
| "indexOf_from needle (c # cs) i =
     (if prefix needle (c # cs) then i else indexOf_from needle cs (i + 1))"

text \<open>The same on an array: the position of the first element that is the string.\<close>

fun indexOf_array :: "string \<Rightarrow> jsval list \<Rightarrow> int \<Rightarrow> int" where
  "indexOf_array needle [] i = - 1"
| "indexOf_array needle (x # xs) i =
     (if x = Str needle then i else indexOf_array needle xs (i + 1))"

text \<open>
  \<^verbatim>\<open>message.indexOf (needle)\<close> on whatever \<^verbatim>\<open>message\<close> is: strings and arrays have
  the method, on every other value the call is a TypeError.
\<close>

definition js_indexOf :: "jsval \<Rightarrow> string \<Rightarrow> error + int" where
  "js_indexOf v needle =
     (case v of
        Str s \<Rightarrow> Inr (indexOf_from needle s 0)
      | Arr xs \<Rightarrow> Inr (indexOf_array needle xs 0)
      | _ \<Rightarrow> Inl TypeError)"

text \<open>
  \<^verbatim>\<open>handleErrors (code, reason, url, method, headers, body)\<close>: \<open>Inr ()\<close> where it
  returns without throwing. The body is the text of the response.
\<close>

definition handleErrors ::
  "runtime \<Rightarrow> exchange \<Rightarrow> int \<Rightarrow> jsval \<Rightarrow> jsval \<Rightarrow> jsval \<Rightarrow> jsval \<Rightarrow> string \<Rightarrow> error + unit" where
  "handleErrors rt ex code reason url method headers body =
     (if code = 400 then
        (if take 1 body = ''{'' then
           (case JSON_parse rt body of
              None \<Rightarrow> Inl SyntaxError
            | Some response \<Rightarrow>
                (case js_member response ''message'' of
                   Inl e \<Rightarrow> Inl e
                 | Inr message \<Rightarrow>
                     (let error = exchange_id ex @ '' '' @ js_str rt message
                      in case js_indexOf message ''price too small'' of
                           Inl e \<Rightarrow> Inl e
                         | Inr i \<Rightarrow>
                             if i \<ge> 0 then Inl (InvalidOrder error)
                             else
                               (case js_indexOf message ''price too precise'' of
                                  Inl e \<Rightarrow> Inl e
                                | Inr j \<Rightarrow>
                                    if j \<ge> 0 then Inl (InvalidOrder error)
                                    else if message = Str ''Insufficient funds'' then
                                      Inl (InsufficientFunds error)
                                    else if message = Str ''Invalid API Key'' then
                                      Inl (AuthenticationError error)
                                    else
                                      Inl (ExchangeError
                                             (exchange_id ex @ '' '' @ js_str rt message))))))
         else Inl (ExchangeError (exchange_id ex @ '' '' @ body)))
      else Inr ())"

section \<open>Fixtures\<close>

text \<open>
  Concrete stand-ins for the runtime, the inherited methods, the exchange object and the
  transport, for evaluating the functions above on concrete inputs. They are simple on
  purpose: \<open>runtime0\<close> converts no string to a number, gives every non-string the empty
  string form and parses no text; the helpers of \<open>base0\<close> read a number only from a
  field that holds a number and a string only from a field that holds a string, leave
  dates as they are, know paths without placeholders only, and \<open>hmac0\<close> is no MAC: it
  shows its arguments. \<open>precisionFromString0\<close> counts the characters after the decimal
  point of a string and throws a TypeError on every other value.
\<close>

definition runtime0 :: runtime where
  "runtime0 = \<lparr> ToNumber = (\<lambda>v. NaN), ToString = (\<lambda>v. []), JSON_parse = (\<lambda>s. None) \<rparr>"

text \<open>
  A runtime that parses three error bodies of the exchange, one of them also behind a
  leading space, and the empty object, and nothing else.
\<close>

definition JSON_parse1 :: "string \<Rightarrow> jsval option" where
  \<open>JSON_parse1 s =
     (if s = ''{"message":"Insufficient funds"}'' then
        Some (Obj [(''message'', Str ''Insufficient funds'')])
      else if s = ''{"message":"price too small"}'' then
        Some (Obj [(''message'', Str ''price too small'')])
      else if s = ''{"message":"weird"}'' then
        Some (Obj [(''message'', Str ''weird'')])
      else if s = '' {"message":"Insufficient funds"}'' then
        Some (Obj [(''message'', Str ''Insufficient funds'')])
      else if s = ''{}'' then
        Some (Obj [])
      else None)\<close>

definition runtime1 :: runtime where
  "runtime1 = \<lparr> ToNumber = (\<lambda>v. NaN), ToString = (\<lambda>v. []), JSON_parse = JSON_parse1 \<rparr>"

definition safeFloat0 :: "jsobj \<Rightarrow> string \<Rightarrow> jsval" where
  "safeFloat0 obj k = (case js_get obj k of Num n \<Rightarrow> Num n | _ \<Rightarrow> Undefined)"

definition safeString0 :: "jsobj \<Rightarrow> jsval \<Rightarrow> jsval \<Rightarrow> jsval" where
  "safeString0 obj key dflt =
     (case key of
        Str k \<Rightarrow> (case js_get obj k of Str t \<Rightarrow> Str t | _ \<Rightarrow> dflt)
      | _ \<Rightarrow> dflt)"

definition precisionFromString0 :: "jsval \<Rightarrow> error + jsval" where
  "precisionFromString0 v =
     (case v of
        Str t \<Rightarrow> Inr (Num (of_nat (length (drop 1 (dropWhile (\<lambda>c. c \<noteq> CHR ''.'') t)))))
      | _ \<Rightarrow> Inl TypeError)"

definition sum0 :: "jsval \<Rightarrow> jsval \<Rightarrow> jsval" where
  "sum0 x y = (case (x, y) of (Num m, Num n) \<Rightarrow> Num (m + n) | _ \<Rightarrow> NaN)"

text \<open>A shallow merge: the keys of the second object win.\<close>

definition extend0 :: "jsobj \<Rightarrow> jsobj \<Rightarrow> jsobj" where
  "extend0 x y =
     map (\<lambda>(k, v). (k, if js_in k y then js_get y k else v)) x
       @ filter (\<lambda>(k, v). \<not> js_in k x) y"

definition omit0 :: "jsobj \<Rightarrow> string list \<Rightarrow> jsobj" where
  "omit0 obj ks = filter (\<lambda>(k, v). k \<notin> set ks) obj"

fun urlencode0 :: "jsobj \<Rightarrow> string" where
  "urlencode0 [] = []"
| "urlencode0 [(k, v)] = k @ ''='' @ js_str runtime0 v"
| "urlencode0 ((k, v) # rest) = k @ ''='' @ js_str runtime0 v @ ''&'' @ urlencode0 rest"

fun json_fields0 :: "jsobj \<Rightarrow> string" where
  \<open>json_fields0 [] = []\<close>
| \<open>json_fields0 [(k, v)] = ''"'' @ k @ ''":"'' @ js_str runtime0 v @ ''"''\<close>
| \<open>json_fields0 ((k, v) # rest) =
     ''"'' @ k @ ''":"'' @ js_str runtime0 v @ ''",'' @ json_fields0 rest\<close>

definition json0 :: "jsval \<Rightarrow> string" where
  "json0 v = (case v of Obj obj \<Rightarrow> ''{'' @ json_fields0 obj @ ''}'' | _ \<Rightarrow> ''null'')"

definition this_market0 :: "jsval \<Rightarrow> error + jsval" where
  "this_market0 symbol =
     (if symbol = Str ''BTC/USD'' then
        Inr (Obj [ (''id'', Str ''BTC-USD''), (''symbol'', Str ''BTC/USD''),
                   (''base'', Str ''BTC''), (''quote'', Str ''USD'') ])
      else Inl (ExchangeError ''gdax No market symbol''))"

definition checkRequiredCredentials0 :: "exchange \<Rightarrow> error option" where
  "checkRequiredCredentials0 ex =
     (if truthy (apiKey ex) \<and> truthy (secret ex) \<and> truthy (password ex) then None
      else Some (AuthenticationError (exchange_id ex @ '' requires credentials'')))"

definition hmac0 :: "string \<Rightarrow> string \<Rightarrow> string \<Rightarrow> string \<Rightarrow> string" where
  "hmac0 msg key algo digest = algo @ ''/'' @ digest @ ''('' @ key @ '','' @ msg @ '')''"

definition base0 :: base where
  "base0 =
     \<lparr> safeFloat = safeFloat0,
       safeString = safeString0,
       precisionFromString = precisionFromString0,
       parse8601 = (\<lambda>v. v),
       iso8601 = (\<lambda>v. v),
       YmdHMS = (\<lambda>v. v),
       sum_js = sum0,
       extend_js = extend0,
       omit = omit0,
       extractParams = (\<lambda>path. []),
       implodeParams = (\<lambda>path params. path),
       urlencode = urlencode0,
       json = json0,
       this_market = this_market0,
       parseOHLCVs = (\<lambda>response mkt timeframe since limit. response),
       checkRequiredCredentials = checkRequiredCredentials0,
       base64ToBinary = js_str runtime0,
       encode = (\<lambda>s. s),
       decode = (\<lambda>s. s),
       hmac = hmac0 \<rparr>"

definition exchange0 :: exchange where
  "exchange0 =
     \<lparr> exchange_id = ''gdax'',
       fees_trading = describe_fees_trading,
       timeframes = describe_timeframes,
       urls_api = ''https://api.gdax.com'',
       markets_by_id =
         (\<lambda>v. if v = Str ''BTC-USD'' then
                Some (Obj [ (''id'', Str ''BTC-USD''), (''symbol'', Str ''BTC/USD''),
                            (''base'', Str ''BTC''), (''quote'', Str ''USD'') ])
              else None),
       apiKey = Str ''key'',
       secret = Str ''c2VjcmV0'',
       password = Str ''passphrase'' \<rparr>"

text \<open>
  A transport whose state is the list of the requests sent so far: the markets are
  loaded already, the products endpoint lists two markets, every other endpoint answers
  with an object that has an id.
\<close>

definition products0 :: "jsobj list" where
  "products0 =
     [ [ (''id'', Str ''BTC-USD''), (''base_currency'', Str ''BTC''),
         (''quote_currency'', Str ''USD''), (''quote_increment'', Str ''0.01''),
         (''status'', Str ''online'') ],
       [ (''id'', Str ''ETH-USD''), (''base_currency'', Str ''ETH''),
         (''quote_currency'', Str ''USD''), (''quote_increment'', Str ''0.01''),
         (''status'', Str ''online'') ] ]"

definition io0 :: "(string \<times> jsobj) list io" where
  "io0 =
     \<lparr> loadMarkets = (\<lambda>w. (Inr (), w)),
       publicGetProducts = (\<lambda>w. (Inr products0, w @ [(''publicGetProducts'', [])])),
       api_call = (\<lambda>name params w. (Inr (Obj [(''id'', Str ''1'')]), w @ [(name, params)])) \<rparr>"

text \<open>A public trade bought by the taker, a private fill sold, and an order.\<close>

definition trade_buy :: jsobj where
  "trade_buy =
     [ (''time'', Str ''2018-01-01T00:00:00.000Z''), (''trade_id'', Num 74),
       (''price'', Num 10), (''size'', Num 0.01), (''side'', Str ''buy'') ]"

definition trade_sell :: jsobj where
  "trade_sell =
     [ (''created_at'', Str ''2018-01-01T00:00:00.000Z''), (''trade_id'', Num 75),
       (''product_id'', Str ''BTC-USD''), (''price'', Num 10), (''size'', Num 0.01),
       (''fill_fees'', Num 0.00025), (''liquidity'', Str ''T''), (''side'', Str ''sell'') ]"

definition order_size_funds :: jsobj where
  "order_size_funds =
     [ (''id'', Str ''d0c5340b''), (''product_id'', Str ''BTC-USD''), (''side'', Str ''buy''),
       (''type'', Str ''market''), (''status'', Str ''done''),
       (''size'', Num 2), (''funds'', Num 30), (''filled_size'', Num 0.5) ]"

section \<open>Properties\<close>

subsection \<open>Auxiliary facts\<close>

lemma fetchMarkets_loop_map:
  "\<forall>mkt \<in> set markets. \<exists>entry. fetchMarkets_entry rt b ex mkt = Inr entry \<Longrightarrow>
     fetchMarkets_loop rt b ex markets result
       = Inr (result @ map (\<lambda>mkt. Obj (projr (fetchMarkets_entry rt b ex mkt))) markets)"
  by (induction markets arbitrary: result) auto

lemma indexOf_from_sublist:
  "0 \<le> i \<Longrightarrow> (0 \<le> indexOf_from needle s i) = sublist needle s"
proof (induction s arbitrary: i)
  case Nil
  then show ?case by simp
next
  case (Cons c cs)
  then show ?case
    by (simp add: sublist_Cons_right)
qed

lemma sign_private:
  assumes creds: "checkRequiredCredentials b ex = None"
  shows "sign b ex nonce path ''private'' method params headers body =
          Inr (Obj [ (''url'', Str (urls_api ex @ sign_request b path method params)),
                     (''method'', Str method),
                     (''body'', sign_body b path method params body),
                     (''headers'',
                        Obj [ (''CB-ACCESS-KEY'', apiKey ex),
                              (''CB-ACCESS-SIGN'',
                                 Str (decode b
                                        (hmac b (encode b (sign_what b nonce path method params))
                                           (base64ToBinary b (secret ex)) ''sha256'' ''base64''))),
                              (''CB-ACCESS-TIMESTAMP'', Str nonce),
                              (''CB-ACCESS-PASSPHRASE'', password ex),
                              (''Content-Type'', Str ''application/json'') ]) ])"
  by (simp add: sign_def Let_def creds)

lemma credentials0: "checkRequiredCredentials base0 exchange0 = None"
  by (simp add: base0_def exchange0_def checkRequiredCredentials0_def)

lemma map_of_extend0_left:
  "js_in k y \<Longrightarrow> js_in k x \<Longrightarrow>
     map_of (map (\<lambda>(k, v). (k, if js_in k y then js_get y k else v)) x) k = Some (js_get y k)"
  by (induction x) (force simp: js_in_def)+

lemma map_of_extend0_left_None:
  "\<not> js_in k x \<Longrightarrow>
     map_of (map (\<lambda>(k, v). (k, if js_in k y then js_get y k else v)) x) k = None"
  by (induction x) (auto simp: js_in_def)

lemma map_of_extend0_right:
  "\<not> js_in k x \<Longrightarrow> map_of (filter (\<lambda>(k, v). \<not> js_in k x) y) k = map_of y k"
  by (induction y) auto

lemma extend0_wins: "js_in k y \<Longrightarrow> js_get (extend0 x y) k = js_get y k"
proof (cases "js_in k x")
  case True
  assume "js_in k y"
  with True show ?thesis
    by (simp add: extend0_def js_get_def map_of_extend0_left)
next
  case False
  then show ?thesis
    by (simp add: extend0_def js_get_def map_add_def map_of_extend0_left_None
        map_of_extend0_right)
qed

subsection \<open>Candles\<close>

text \<open>
  C1. For the candle row \<open>[t, 100, 90, 95, 80, 1000]\<close>, \<open>parseOHLCV\<close> returns
  \<open>[t * 1000, 95, 90, 100, 80, 1000]\<close>: the element at index 3 comes second, the one at
  index 2 third and the one at index 1 fourth.
\<close>

theorem parseOHLCV_example:
  "parseOHLCV rt [Num t, Num 100, Num 90, Num 95, Num 80, Num 1000] market timeframe since limit
     = [Num (t * 1000), Num 95, Num 90, Num 100, Num 80, Num 1000]"
  by (simp add: parseOHLCV_def js_index_def js_mul_def js_toNumber_def)

text \<open>
  The row \<open>[t, 100, 90, 95, 80, 1000]\<close> is not mapped to \<open>[t * 1000, 95, 100, 90, 80, 1000]\<close>:
  at \<open>t = 1514764800\<close> the third element of the result is 90, not 100.
\<close>

theorem parseOHLCV_example_counterexample:
  "parseOHLCV runtime0
      [Num 1514764800, Num 100, Num 90, Num 95, Num 80, Num 1000]
      Undefined (Str ''1m'') Undefined Undefined
     \<noteq> [Num (1514764800 * 1000), Num 95, Num 100, Num 90, Num 80, Num 1000]"
  by (simp add: parseOHLCV_def js_index_def js_mul_def js_toNumber_def)

text \<open>
  C2. Every six-element candle row in the upstream order time, low, high, open, close,
  volume is returned in the order time, open, high, low, close, volume, the time
  multiplied by 1000 (seconds to milliseconds) and the other five values unchanged.
\<close>

theorem parseOHLCV_permutes:
  "parseOHLCV rt [Num time, lo, hi, op, cl, vol] market timeframe since limit
     = [Num (time * 1000), op, hi, lo, cl, vol]"
  by (simp add: parseOHLCV_def js_index_def js_mul_def js_toNumber_def)

subsection \<open>Trades\<close>

text \<open>
  C5. \<open>parseTrade\<close> inverts the side that the payload reports, once: a payload side
  of \<open>buy\<close> gives the side \<open>sell\<close>, and a payload side of \<open>sell\<close> gives \<open>buy\<close>.
\<close>

theorem parseTrade_side:
  "(js_get trade ''side'' = Str ''buy'' \<longrightarrow>
      js_prop (parseTrade b ex trade mkt) ''side'' = Str ''sell'')
   \<and> (js_get trade ''side'' = Str ''sell'' \<longrightarrow>
      js_prop (parseTrade b ex trade mkt) ''side'' = Str ''buy'')"
  by (simp add: parseTrade_def Let_def js_prop_def js_get_def)

theorem parseTrade_side_witness:
  "js_get trade_buy ''side'' = Str ''buy''
   \<and> js_prop (parseTrade base0 exchange0 trade_buy Undefined) ''side'' = Str ''sell''
   \<and> js_get trade_sell ''side'' = Str ''sell''
   \<and> js_prop (parseTrade base0 exchange0 trade_sell Undefined) ''side'' = Str ''buy''"
proof -
  have buy: "js_get trade_buy ''side'' = Str ''buy''"
    by (simp add: trade_buy_def js_get_def)
  have sell: "js_get trade_sell ''side'' = Str ''sell''"
    by (simp add: trade_sell_def js_get_def)
  from buy sell
    parseTrade_side [of trade_buy base0 exchange0 Undefined]
    parseTrade_side [of trade_sell base0 exchange0 Undefined]
  show ?thesis by simp
qed

subsection \<open>Orders\<close>

text \<open>
  C6. \<open>parseOrder\<close> resolves the amount by reading \<open>size\<close>, then \<open>funds\<close>, then
  \<open>specified_funds\<close> with \<open>safeFloat\<close>, in this order, and stops at the first reading
  that is defined; in particular, where the readings of \<open>size\<close> and of \<open>funds\<close> are
  both defined, the amount is the reading of \<open>size\<close>.
\<close>

theorem parseOrder_amount:
  "js_prop (parseOrder rt b ex order mkt) ''amount'' =
     (if safeFloat b order ''size'' \<noteq> Undefined then safeFloat b order ''size''
      else if safeFloat b order ''funds'' \<noteq> Undefined then safeFloat b order ''funds''
      else safeFloat b order ''specified_funds'')
   \<and> (safeFloat b order ''size'' \<noteq> Undefined \<and> safeFloat b order ''funds'' \<noteq> Undefined \<longrightarrow>
        js_prop (parseOrder rt b ex order mkt) ''amount'' = safeFloat b order ''size'')"
  by (simp add: parseOrder_def Let_def js_prop_def js_get_def)

theorem parseOrder_amount_witness:
  "safeFloat base0 order_size_funds ''size'' \<noteq> Undefined
   \<and> safeFloat base0 order_size_funds ''funds'' \<noteq> Undefined
   \<and> js_prop (parseOrder runtime0 base0 exchange0 order_size_funds Undefined) ''amount'' = Num 2"
proof -
  have size: "safeFloat base0 order_size_funds ''size'' = Num 2"
    by (simp add: base0_def safeFloat0_def order_size_funds_def js_get_def)
  have funds: "safeFloat base0 order_size_funds ''funds'' = Num 30"
    by (simp add: base0_def safeFloat0_def order_size_funds_def js_get_def)
  from size funds
    parseOrder_amount [of runtime0 base0 exchange0 order_size_funds Undefined]
  show ?thesis by simp
qed

subsection \<open>Markets\<close>

text \<open>
  C7. Let \<open>extend\<close> give the keys of its second argument precedence, and let
  \<open>precisionFromString\<close> return on the price increment of every market that the
  products endpoint lists. Then \<open>fetchMarkets\<close> returns one entry for each of these
  markets, and the entry has the taker fee 0.003 where the market's \<open>base_currency\<close> is
  ETH or LTC, whatever the trading fees of the exchange object are, and the taker fee
  of those trading fees for every other base currency.
\<close>

theorem fetchMarkets_taker:
  assumes ext: "\<And>x y k. js_in k y \<Longrightarrow> js_get (extend_js b x y) k = js_get y k"
    and got: "publicGetProducts io w = (Inr markets, w1)"
    and prec: "\<And>mkt. mkt \<in> set markets \<Longrightarrow>
        \<exists>p. precisionFromString b (safeString b mkt (Str ''quote_increment'') Undefined) = Inr p"
    and i: "i < length markets"
  shows "\<exists>result.
           fetchMarkets io rt b ex w = (Inr (Arr result), w1)
           \<and> length result = length markets
           \<and> js_prop (result ! i) ''taker'' =
               (if js_get (markets ! i) ''base_currency'' = Str ''ETH''
                   \<or> js_get (markets ! i) ''base_currency'' = Str ''LTC''
                then Num 0.003
                else js_get (fees_trading ex) ''taker'')"
proof -
  let ?result = "map (\<lambda>mkt. Obj (projr (fetchMarkets_entry rt b ex mkt))) markets"
  have entry: "\<exists>entry. fetchMarkets_entry rt b ex mkt = Inr entry" if "mkt \<in> set markets" for mkt
  proof -
    from prec [OF that] obtain p
      where "precisionFromString b (safeString b mkt (Str ''quote_increment'') Undefined) = Inr p"
      by blast
    then show ?thesis
      by (simp add: fetchMarkets_entry_def Let_def)
  qed
  then have "fetchMarkets_loop rt b ex markets [] = Inr ?result"
    by (simp add: fetchMarkets_loop_map)
  then have run: "fetchMarkets io rt b ex w = (Inr (Arr ?result), w1)"
    by (simp add: fetchMarkets_def got)
  have taker: "js_get entry ''taker'' =
          (if js_get mkt ''base_currency'' = Str ''ETH'' \<or> js_get mkt ''base_currency'' = Str ''LTC''
           then Num 0.003 else js_get (fees_trading ex) ''taker'')"
    if "fetchMarkets_entry rt b ex mkt = Inr entry" for mkt entry
  proof -
    from that obtain body where "entry = extend_js b (fees_trading ex) body"
      and "js_in ''taker'' body"
      and "js_get body ''taker'' =
          (if js_get mkt ''base_currency'' = Str ''ETH'' \<or> js_get mkt ''base_currency'' = Str ''LTC''
           then Num 0.003 else js_get (fees_trading ex) ''taker'')"
      by (auto simp: fetchMarkets_entry_def Let_def js_in_def js_get_def split: sum.splits)
    then show ?thesis by (simp add: ext)
  qed
  from i have "markets ! i \<in> set markets" by simp
  from entry [OF this] obtain e where e: "fetchMarkets_entry rt b ex (markets ! i) = Inr e"
    by blast
  with i taker [OF e] have "js_prop (?result ! i) ''taker'' =
          (if js_get (markets ! i) ''base_currency'' = Str ''ETH''
              \<or> js_get (markets ! i) ''base_currency'' = Str ''LTC''
           then Num 0.003 else js_get (fees_trading ex) ''taker'')"
    by (simp add: js_prop_def)
  with run show ?thesis by simp
qed

theorem fetchMarkets_taker_witness:
  "publicGetProducts io0 [] = (Inr products0, [(''publicGetProducts'', [])])
   \<and> precisionFromString base0 (safeString base0 (products0 ! 0) (Str ''quote_increment'') Undefined)
       = Inr (Num 2)
   \<and> precisionFromString base0 (safeString base0 (products0 ! 1) (Str ''quote_increment'') Undefined)
       = Inr (Num 2)
   \<and> (\<exists>result.
         fetchMarkets io0 runtime0 base0 exchange0 [] = (Inr (Arr result), [(''publicGetProducts'', [])])
         \<and> length result = 2
         \<and> js_prop (result ! 0) ''taker'' = Num (0.25 / 100)
         \<and> js_prop (result ! 1) ''taker'' = Num 0.003)"
proof -
  have ext: "\<And>x y k. js_in k y \<Longrightarrow> js_get (extend_js base0 x y) k = js_get y k"
    by (simp add: base0_def extend0_wins)
  have got: "publicGetProducts io0 [] = (Inr products0, [(''publicGetProducts'', [])])"
    by (simp add: io0_def)
  have len: "length products0 = 2"
    by (simp add: products0_def)
  have p0: "precisionFromString base0
        (safeString base0 (products0 ! 0) (Str ''quote_increment'') Undefined) = Inr (Num 2)"
    and p1: "precisionFromString base0
        (safeString base0 (products0 ! 1) (Str ''quote_increment'') Undefined) = Inr (Num 2)"
    by (simp_all add: base0_def precisionFromString0_def safeString0_def products0_def js_get_def)
  have prec: "\<exists>p. precisionFromString base0
        (safeString base0 mkt (Str ''quote_increment'') Undefined) = Inr p"
    if "mkt \<in> set products0" for mkt
  proof -
    from that have "mkt = products0 ! 0 \<or> mkt = products0 ! 1"
      by (auto simp: products0_def)
    with p0 p1 show ?thesis by auto
  qed
  have btc: "js_get (products0 ! 0) ''base_currency'' = Str ''BTC''"
    and eth: "js_get (products0 ! 1) ''base_currency'' = Str ''ETH''"
    by (simp_all add: products0_def js_get_def)
  have fee: "js_get (fees_trading exchange0) ''taker'' = Num (0.25 / 100)"
    by (simp add: exchange0_def describe_fees_trading_def js_get_def)
  from fetchMarkets_taker [OF ext got prec, of 0 runtime0 exchange0]
  obtain r0 where r0: "fetchMarkets io0 runtime0 base0 exchange0 [] = (Inr (Arr r0), [(''publicGetProducts'', [])])"
    "length r0 = 2" "js_prop (r0 ! 0) ''taker'' = Num (0.25 / 100)"
    using len btc fee by auto
  from fetchMarkets_taker [OF ext got prec, of 1 runtime0 exchange0]
  obtain r1 where r1: "fetchMarkets io0 runtime0 base0 exchange0 [] = (Inr (Arr r1), [(''publicGetProducts'', [])])"
    "js_prop (r1 ! 1) ''taker'' = Num 0.003"
    using len eth by auto
  from r0 r1 have "r1 = r0" by simp
  with r0 r1 got p0 p1 show ?thesis by auto
qed

subsection \<open>Candle requests\<close>

text \<open>
  C10. Let \<open>sum\<close> add two numbers, and let the markets load and the symbol resolve to a
  market with an id. When \<open>since\<close> is a timestamp and \<open>limit\<close> is not given, the limit
  becomes 350 and the request of \<open>fetchOHLCV\<close> carries \<open>start\<close>, the date string of
  \<open>since\<close>, and \<open>end\<close>, the date string of \<open>since + 350 * granularity * 1000\<close>; with a
  limit given, that limit takes the place of 350. When \<open>since\<close> is not given, the
  request carries the market id and the granularity only, no \<open>start\<close> and no \<open>end\<close>,
  and the limit stays as it is.
\<close>

theorem fetchOHLCV_since_limit:
  assumes sum: "\<And>x y. sum_js b (Num x) (Num y) = Num (x + y)"
    and loaded: "loadMarkets io w = (Inr u, w1)"
    and mkt: "this_market b symbol = Inr mkt"
    and mid: "js_member mkt ''id'' = Inr mid"
    and gran: "js_get (timeframes ex) timeframe = Num g"
  shows "fetchOHLCV io rt b ex symbol timeframe (Num s) Undefined params w =
           (case api_call io ''publicGetProductsIdCandles''
                   (extend_js b
                      [ (''id'', mid), (''granularity'', Num g),
                        (''start'', YmdHMS b (Num s)),
                        (''end'', YmdHMS b (Num (s + 350 * g * 1000))) ]
                      params) w1 of
              (Inl e, w2) \<Rightarrow> (Inl e, w2)
            | (Inr response, w2) \<Rightarrow>
                (Inr (parseOHLCVs b response mkt timeframe (Num s) (Num 350)), w2))
       \<and> fetchOHLCV io rt b ex symbol timeframe (Num s) (Num l) params w =
           (case api_call io ''publicGetProductsIdCandles''
                   (extend_js b
                      [ (''id'', mid), (''granularity'', Num g),
                        (''start'', YmdHMS b (Num s)),
                        (''end'', YmdHMS b (Num (s + l * g * 1000))) ]
                      params) w1 of
              (Inl e, w2) \<Rightarrow> (Inl e, w2)
            | (Inr response, w2) \<Rightarrow>
                (Inr (parseOHLCVs b response mkt timeframe (Num s) (Num l)), w2))
       \<and> fetchOHLCV io rt b ex symbol timeframe Undefined limit params w =
           (case api_call io ''publicGetProductsIdCandles''
                   (extend_js b [ (''id'', mid), (''granularity'', Num g) ] params) w1 of
              (Inl e, w2) \<Rightarrow> (Inl e, w2)
            | (Inr response, w2) \<Rightarrow>
                (Inr (parseOHLCVs b response mkt timeframe Undefined limit), w2))"
proof -
  have req_default:
    "fetchOHLCV_request rt b ex mid timeframe (Num s) Undefined =
       ([ (''id'', mid), (''granularity'', Num g), (''start'', YmdHMS b (Num s)),
          (''end'', YmdHMS b (Num (s + 350 * g * 1000))) ], Num 350)"
    by (simp add: fetchOHLCV_request_def Let_def gran js_mul_def js_toNumber_def sum
        add.commute)
  have req_limit:
    "fetchOHLCV_request rt b ex mid timeframe (Num s) (Num l) =
       ([ (''id'', mid), (''granularity'', Num g), (''start'', YmdHMS b (Num s)),
          (''end'', YmdHMS b (Num (s + l * g * 1000))) ], Num l)"
    by (simp add: fetchOHLCV_request_def Let_def gran js_mul_def js_toNumber_def sum
        add.commute)
  have req_none:
    "fetchOHLCV_request rt b ex mid timeframe Undefined limit =
       ([ (''id'', mid), (''granularity'', Num g) ], limit)"
    by (simp add: fetchOHLCV_request_def Let_def gran)
  show ?thesis
    by (simp add: fetchOHLCV_def loaded mkt mid req_default req_limit req_none)
qed

theorem fetchOHLCV_since_limit_witness:
  "loadMarkets io0 [] = (Inr (), [])
   \<and> this_market base0 (Str ''BTC/USD'') =
       Inr (Obj [ (''id'', Str ''BTC-USD''), (''symbol'', Str ''BTC/USD''),
                  (''base'', Str ''BTC''), (''quote'', Str ''USD'') ])
   \<and> js_get (timeframes exchange0) ''1m'' = Num 60
   \<and> fetchOHLCV io0 runtime0 base0 exchange0 (Str ''BTC/USD'') ''1m''
        (Num 1514764800000) Undefined [] [] =
       (Inr (Obj [(''id'', Str ''1'')]),
        [ (''publicGetProductsIdCandles'',
           [ (''id'', Str ''BTC-USD''), (''granularity'', Num 60),
             (''start'', Num 1514764800000), (''end'', Num 1514785800000) ]) ])
   \<and> fetchOHLCV io0 runtime0 base0 exchange0 (Str ''BTC/USD'') ''1m''
        Undefined Undefined [] [] =
       (Inr (Obj [(''id'', Str ''1'')]),
        [ (''publicGetProductsIdCandles'',
           [ (''id'', Str ''BTC-USD''), (''granularity'', Num 60) ]) ])"
proof -
  have sum: "\<And>x y. sum_js base0 (Num x) (Num y) = Num (x + y)"
    by (simp add: base0_def sum0_def)
  have loaded: "loadMarkets io0 [] = (Inr (), [])"
    by (simp add: io0_def)
  have mkt: "this_market base0 (Str ''BTC/USD'') =
       Inr (Obj [ (''id'', Str ''BTC-USD''), (''symbol'', Str ''BTC/USD''),
                  (''base'', Str ''BTC''), (''quote'', Str ''USD'') ])"
    by (simp add: base0_def this_market0_def)
  have mid: "js_member (Obj [ (''id'', Str ''BTC-USD''), (''symbol'', Str ''BTC/USD''),
                  (''base'', Str ''BTC''), (''quote'', Str ''USD'') ]) ''id'' = Inr (Str ''BTC-USD'')"
    by (simp add: js_member_def js_prop_def js_get_def)
  have gran: "js_get (timeframes exchange0) ''1m'' = Num 60"
    by (simp add: exchange0_def describe_timeframes_def js_get_def)
  have ext: "extend_js base0 x [] = x" for x
    by (induction x) (auto simp: base0_def extend0_def js_in_def)
  have call: "api_call io0 name params w = (Inr (Obj [(''id'', Str ''1'')]), w @ [(name, params)])"
    for name params w
    by (simp add: io0_def)
  have ymd: "YmdHMS base0 v = v" and ohlcvs: "parseOHLCVs base0 r m t x y = r" for v r m t x y
    by (simp_all add: base0_def)
  from fetchOHLCV_since_limit [OF sum loaded mkt mid gran,
      of runtime0 1514764800000 "[]" 0 Undefined]
  show ?thesis
    by (simp add: loaded mkt gran ext call ymd ohlcvs)
qed

subsection \<open>Deposits and withdrawals\<close>

text \<open>
  C8. Let the extra parameters hold neither \<open>payment_method_id\<close> nor
  \<open>coinbase_account_id\<close>, and let the markets load. Then \<open>deposit\<close> throws NotSupported
  and sends no request: the state of the transport is the one the market load left.
  \<open>withdraw\<close> instead calls the crypto endpoint, with a request that carries the
  address as \<open>crypto_address\<close> next to the currency and the amount.
\<close>

theorem deposit_withdraw_without_account:
  assumes no_pm: "\<not> js_in ''payment_method_id'' params"
    and no_cb: "\<not> js_in ''coinbase_account_id'' params"
    and loaded: "loadMarkets io w = (Inr u, w1)"
  shows "deposit io b ex currency amount address params w =
           (Inl (NotSupported (exchange_id ex @
              '' deposit() requires one of `coinbase_account_id` or `payment_method_id` extra params'')),
            w1)
       \<and> withdraw io b ex currency amount address tag params w =
           (case api_call io ''privatePostWithdrawalsCrypto''
                   (extend_js b
                      [ (''currency'', currency), (''amount'', amount),
                        (''crypto_address'', address) ]
                      params) w1 of
              (Inl e, w2) \<Rightarrow> (Inl e, w2)
            | (Inr response, w2) \<Rightarrow>
                if \<not> truthy response then
                  (Inl (ExchangeError
                     (exchange_id ex @ '' withdraw() error: '' @ json b response)), w2)
                else
                  (Inr (Obj [ (''info'', response), (''id'', js_prop response ''id'') ]), w2))"
proof -
  have dep: "deposit io b ex currency amount address params w =
           (Inl (NotSupported (exchange_id ex @
              '' deposit() requires one of `coinbase_account_id` or `payment_method_id` extra params'')),
            w1)"
    by (simp add: deposit_def Let_def loaded no_pm no_cb)
  have wd: "withdraw io b ex currency amount address tag params w =
           (case api_call io ''privatePostWithdrawalsCrypto''
                   (extend_js b
                      [ (''currency'', currency), (''amount'', amount),
                        (''crypto_address'', address) ]
                      params) w1 of
              (Inl e, w2) \<Rightarrow> (Inl e, w2)
            | (Inr response, w2) \<Rightarrow>
                if \<not> truthy response then
                  (Inl (ExchangeError
                     (exchange_id ex @ '' withdraw() error: '' @ json b response)), w2)
                else
                  (Inr (Obj [ (''info'', response), (''id'', js_prop response ''id'') ]), w2))"
    by (simp add: withdraw_def Let_def loaded no_pm no_cb)
  from dep wd show ?thesis by (rule conjI)
qed

theorem deposit_withdraw_without_account_witness:
  "\<not> js_in ''payment_method_id'' []
   \<and> \<not> js_in ''coinbase_account_id'' []
   \<and> loadMarkets io0 [] = (Inr (), [])
   \<and> deposit io0 base0 exchange0 (Str ''BTC'') (Num 1) (Str ''1BoatSLRHtKNngkdXEeobR76b53LETtpyT'') [] [] =
       (Inl (NotSupported
          ''gdax deposit() requires one of `coinbase_account_id` or `payment_method_id` extra params''),
        [])
   \<and> withdraw io0 base0 exchange0 (Str ''BTC'') (Num 1) (Str ''1BoatSLRHtKNngkdXEeobR76b53LETtpyT'')
        Undefined [] [] =
       (Inr (Obj [ (''info'', Obj [(''id'', Str ''1'')]), (''id'', Str ''1'') ]),
        [ (''privatePostWithdrawalsCrypto'',
           [ (''currency'', Str ''BTC''), (''amount'', Num 1),
             (''crypto_address'', Str ''1BoatSLRHtKNngkdXEeobR76b53LETtpyT'') ]) ])"
proof -
  have no_pm: "\<not> js_in ''payment_method_id'' []"
    and no_cb: "\<not> js_in ''coinbase_account_id'' []"
    by (simp_all add: js_in_def)
  have loaded: "loadMarkets io0 [] = (Inr (), [])"
    by (simp add: io0_def)
  have ext: "extend_js base0 x [] = x" for x
    by (induction x) (auto simp: base0_def extend0_def js_in_def)
  have call: "api_call io0 name params w = (Inr (Obj [(''id'', Str ''1'')]), w @ [(name, params)])"
    for name params w
    by (simp add: io0_def)
  have ident: "exchange_id exchange0 = ''gdax''"
    by (simp add: exchange0_def)
  from deposit_withdraw_without_account [OF no_pm no_cb loaded,
      of base0 exchange0 "Str ''BTC''" "Num 1" "Str ''1BoatSLRHtKNngkdXEeobR76b53LETtpyT''" Undefined]
  show ?thesis
    by (simp add: no_pm no_cb loaded ext call ident js_prop_def js_get_def)
qed

subsection \<open>Signing\<close>

text \<open>
  C3. Let \<open>sign\<close> be called to build a private request, its \<open>body\<close> argument left at
  the default, \<^verbatim>\<open>undefined\<close>. Then the string that is signed is
  \<open>nonce + method + requestPath + body\<close>, the body being that of the returned
  descriptor and the empty string where the descriptor has none; a GET request has
  none; and for a method other than GET with leftover query parameters, the JSON
  serialization of these parameters is both the signing payload and the body of the
  descriptor. The request path is the part of the URL after the API root.
\<close>

theorem sign_signed_string:
  assumes creds: "checkRequiredCredentials b ex = None"
  shows "\<exists>r. sign b ex nonce path ''private'' method params headers Undefined = Inr r
           \<and> js_prop r ''url'' = Str (urls_api ex @ sign_request b path method params)
           \<and> js_prop (js_prop r ''headers'') ''CB-ACCESS-SIGN'' =
               Str (decode b
                      (hmac b (encode b (sign_what b nonce path method params))
                         (base64ToBinary b (secret ex)) ''sha256'' ''base64''))
           \<and> sign_what b nonce path method params =
               nonce @ method @ sign_request b path method params
                 @ (case js_prop r ''body'' of Str t \<Rightarrow> t | _ \<Rightarrow> [])
           \<and> (method = ''GET'' \<longrightarrow> js_prop r ''body'' = Undefined)
           \<and> (method \<noteq> ''GET'' \<and> sign_query b path params \<noteq> [] \<longrightarrow>
                sign_payload b path method params = json b (Obj (sign_query b path params))
                \<and> js_prop r ''body'' = Str (sign_payload b path method params))"
  by (simp add: sign_private [OF creds] js_prop_def js_get_def sign_what_def sign_payload_def
      sign_body_def Let_def)

theorem sign_signed_string_witness:
  \<open>checkRequiredCredentials base0 exchange0 = None
   \<and> (\<exists>r. sign base0 exchange0 ''1514764800000'' ''orders'' ''private'' ''POST''
              [(''size'', Str ''1''), (''product_id'', Str ''BTC-USD'')] Undefined Undefined = Inr r
         \<and> js_prop (js_prop r ''headers'') ''CB-ACCESS-SIGN'' =
             Str ''sha256/base64(c2VjcmV0,1514764800000POST/orders{"size":"1","product_id":"BTC-USD"})''
         \<and> sign_what base0 ''1514764800000'' ''orders'' ''POST''
              [(''size'', Str ''1''), (''product_id'', Str ''BTC-USD'')] =
             ''1514764800000POST/orders{"size":"1","product_id":"BTC-USD"}''
         \<and> js_prop r ''body'' = Str ''{"size":"1","product_id":"BTC-USD"}'')
   \<and> (\<exists>r. sign base0 exchange0 ''1514764800000'' ''accounts'' ''private'' ''GET'' []
              Undefined Undefined = Inr r
         \<and> sign_what base0 ''1514764800000'' ''accounts'' ''GET'' [] =
             ''1514764800000GET/accounts''
         \<and> js_prop r ''body'' = Undefined)\<close>
proof -
  let ?params = "[(''size'', Str ''1''), (''product_id'', Str ''BTC-USD'')]"
  have query: "sign_query base0 ''orders'' ?params = ?params"
    by (simp add: sign_query_def base0_def omit0_def)
  have request: "sign_request base0 ''orders'' ''POST'' ?params = ''/orders''"
    by (simp add: sign_request_def base0_def)
  have ser: \<open>json base0 (Obj ?params) = ''{"size":"1","product_id":"BTC-USD"}''\<close>
    by (simp add: base0_def json0_def js_str_def)
  have mac: "decode base0 (hmac base0 (encode base0 msg) (base64ToBinary base0 (secret exchange0))
      ''sha256'' ''base64'') = ''sha256/base64(c2VjcmV0,'' @ msg @ '')''" for msg
    by (simp add: base0_def exchange0_def hmac0_def js_str_def)
  from sign_signed_string [OF credentials0, of "''1514764800000''" "''orders''" "''POST''"
      ?params Undefined]
  obtain r where r: "sign base0 exchange0 ''1514764800000'' ''orders'' ''private'' ''POST''
        ?params Undefined Undefined = Inr r"
    and sig: "js_prop (js_prop r ''headers'') ''CB-ACCESS-SIGN'' =
        Str (decode base0
               (hmac base0 (encode base0 (sign_what base0 ''1514764800000'' ''orders'' ''POST'' ?params))
                  (base64ToBinary base0 (secret exchange0)) ''sha256'' ''base64''))"
    and what: "sign_what base0 ''1514764800000'' ''orders'' ''POST'' ?params =
        ''1514764800000'' @ ''POST'' @ sign_request base0 ''orders'' ''POST'' ?params
          @ (case js_prop r ''body'' of Str t \<Rightarrow> t | _ \<Rightarrow> [])"
    and body: "''POST'' \<noteq> ''GET'' \<and> sign_query base0 ''orders'' ?params \<noteq> [] \<longrightarrow>
        sign_payload base0 ''orders'' ''POST'' ?params
          = json base0 (Obj (sign_query base0 ''orders'' ?params))
        \<and> js_prop r ''body'' = Str (sign_payload base0 ''orders'' ''POST'' ?params)"
    by blast
  from body have body': \<open>js_prop r ''body'' = Str ''{"size":"1","product_id":"BTC-USD"}''\<close>
    by (simp add: query ser)
  from what have what': \<open>sign_what base0 ''1514764800000'' ''orders'' ''POST'' ?params =
      ''1514764800000POST/orders{"size":"1","product_id":"BTC-USD"}''\<close>
    by (simp add: request body')
  from sig have sig': \<open>js_prop (js_prop r ''headers'') ''CB-ACCESS-SIGN'' =
      Str ''sha256/base64(c2VjcmV0,1514764800000POST/orders{"size":"1","product_id":"BTC-USD"})''\<close>
    by (simp add: mac what')
  have request_get: "sign_request base0 ''accounts'' ''GET'' [] = ''/accounts''"
    by (simp add: sign_request_def sign_query_def base0_def omit0_def)
  from sign_signed_string [OF credentials0, of "''1514764800000''" "''accounts''" "''GET''"
      "[]" Undefined]
  obtain g where g: "sign base0 exchange0 ''1514764800000'' ''accounts'' ''private'' ''GET''
        [] Undefined Undefined = Inr g"
    and what_g: "sign_what base0 ''1514764800000'' ''accounts'' ''GET'' [] =
        ''1514764800000'' @ ''GET'' @ sign_request base0 ''accounts'' ''GET'' []
          @ (case js_prop g ''body'' of Str t \<Rightarrow> t | _ \<Rightarrow> [])"
    and body_g: "''GET'' = ''GET'' \<longrightarrow> js_prop g ''body'' = Undefined"
    by blast
  from body_g have body_g': "js_prop g ''body'' = Undefined" by simp
  from what_g have what_g': "sign_what base0 ''1514764800000'' ''accounts'' ''GET'' [] =
      ''1514764800000GET/accounts''"
    by (simp add: request_get body_g')
  from r sig' what' body' g what_g' body_g' credentials0 show ?thesis by blast
qed

text \<open>
  C9. For every private request that \<open>sign\<close> builds, the Content-Type header is set to
  \<open>application/json\<close>, with a body and without one; in particular a private GET
  request, whose body is the one the caller passed, none by default, is emitted with
  it.
\<close>

theorem sign_content_type:
  assumes creds: "checkRequiredCredentials b ex = None"
  shows "\<exists>r. sign b ex nonce path ''private'' method params headers body = Inr r
           \<and> js_prop (js_prop r ''headers'') ''Content-Type'' = Str ''application/json''
           \<and> (method = ''GET'' \<longrightarrow> js_prop r ''body'' = body)"
  by (simp add: sign_private [OF creds] js_prop_def js_get_def sign_body_def)

theorem sign_content_type_witness:
  "checkRequiredCredentials base0 exchange0 = None
   \<and> (\<exists>r. sign base0 exchange0 ''1514764800000'' ''accounts'' ''private'' ''GET'' []
              Undefined Undefined = Inr r
         \<and> js_prop (js_prop r ''headers'') ''Content-Type'' = Str ''application/json''
         \<and> js_prop r ''body'' = Undefined)"
  using sign_content_type [OF credentials0, of "''1514764800000''" "''accounts''" "''GET''"
      "[]" Undefined Undefined]
  by (auto simp: credentials0)

text \<open>A private GET request with no parameters and no body carries the header.\<close>

theorem sign_content_type_counterexample:
  "sign base0 exchange0 ''1514764800000'' ''accounts'' ''private'' ''GET'' []
       Undefined Undefined =
     Inr (Obj [ (''url'', Str ''https://api.gdax.com/accounts''),
                (''method'', Str ''GET''),
                (''body'', Undefined),
                (''headers'',
                   Obj [ (''CB-ACCESS-KEY'', Str ''key''),
                         (''CB-ACCESS-SIGN'', Str ''sha256/base64(c2VjcmV0,1514764800000GET/accounts)''),
                         (''CB-ACCESS-TIMESTAMP'', Str ''1514764800000''),
                         (''CB-ACCESS-PASSPHRASE'', Str ''passphrase''),
                         (''Content-Type'', Str ''application/json'') ]) ])"
  by (simp add: sign_def sign_body_def sign_what_def sign_request_def sign_payload_def
      sign_query_def base0_def exchange0_def checkRequiredCredentials0_def hmac0_def omit0_def
      js_str_def Let_def)

subsection \<open>Classifying errors\<close>

text \<open>
  C4. For a response of status 400 whose body starts with an opening brace and parses
  to an object with a string \<open>message\<close>, \<open>handleErrors\<close> throws, in this precedence:
  InvalidOrder where the message contains \<open>price too small\<close>, InvalidOrder where it
  contains \<open>price too precise\<close>, InsufficientFunds where it is \<open>Insufficient funds\<close>,
  AuthenticationError where it is \<open>Invalid API Key\<close>, and ExchangeError with the
  message otherwise. For a response of status 400 whose body does not start with an
  opening brace it throws ExchangeError with the text of the body.
\<close>

theorem handleErrors_status_400:
  "(take 1 body = ''{'' \<and> JSON_parse rt body = Some (Obj flds)
      \<and> js_get flds ''message'' = Str m \<longrightarrow>
      handleErrors rt ex 400 reason url method headers body =
        Inl (if sublist ''price too small'' m then InvalidOrder (exchange_id ex @ '' '' @ m)
             else if sublist ''price too precise'' m then InvalidOrder (exchange_id ex @ '' '' @ m)
             else if m = ''Insufficient funds'' then InsufficientFunds (exchange_id ex @ '' '' @ m)
             else if m = ''Invalid API Key'' then AuthenticationError (exchange_id ex @ '' '' @ m)
             else ExchangeError (exchange_id ex @ '' '' @ m)))
   \<and> (take 1 body \<noteq> ''{'' \<longrightarrow>
      handleErrors rt ex 400 reason url method headers body =
        Inl (ExchangeError (exchange_id ex @ '' '' @ body)))"
  by (simp add: handleErrors_def js_member_def js_prop_def js_indexOf_def js_str_def Let_def
      indexOf_from_sublist)

theorem handleErrors_status_400_witness:
  \<open>take 1 ''{"message":"Insufficient funds"}'' = ''{''
   \<and> JSON_parse runtime1 ''{"message":"Insufficient funds"}'' =
       Some (Obj [(''message'', Str ''Insufficient funds'')])
   \<and> handleErrors runtime1 exchange0 400 (Str ''Bad Request'') Undefined (Str ''POST'') Undefined
        ''{"message":"Insufficient funds"}'' = Inl (InsufficientFunds ''gdax Insufficient funds'')
   \<and> handleErrors runtime1 exchange0 400 (Str ''Bad Request'') Undefined (Str ''POST'') Undefined
        ''{"message":"price too small"}'' = Inl (InvalidOrder ''gdax price too small'')
   \<and> handleErrors runtime1 exchange0 400 (Str ''Bad Request'') Undefined (Str ''POST'') Undefined
        ''{"message":"weird"}'' = Inl (ExchangeError ''gdax weird'')
   \<and> take 1 ''Bad Request'' \<noteq> ''{''
   \<and> handleErrors runtime1 exchange0 400 (Str ''Bad Request'') Undefined (Str ''POST'') Undefined
        ''Bad Request'' = Inl (ExchangeError ''gdax Bad Request'')\<close>
proof -
  have ident: "exchange_id exchange0 = ''gdax''"
    by (simp add: exchange0_def)
  have parse1: \<open>JSON_parse runtime1 ''{"message":"Insufficient funds"}'' =
      Some (Obj [(''message'', Str ''Insufficient funds'')])\<close>
    and parse2: \<open>JSON_parse runtime1 ''{"message":"price too small"}'' =
      Some (Obj [(''message'', Str ''price too small'')])\<close>
    and parse3: \<open>JSON_parse runtime1 ''{"message":"weird"}'' =
      Some (Obj [(''message'', Str ''weird'')])\<close>
    by (simp_all add: runtime1_def JSON_parse1_def)
  have msg: "js_get [(''message'', Str m)] ''message'' = Str m" for m
    by (simp add: js_get_def)
  have no1: "\<not> sublist ''price too small'' ''Insufficient funds''"
    and no2: "\<not> sublist ''price too precise'' ''Insufficient funds''"
    and no3: "\<not> sublist ''price too small'' ''weird''"
    and no4: "\<not> sublist ''price too precise'' ''weird''"
    by (simp_all add: indexOf_from_sublist [of 0, symmetric])
  have funds: \<open>handleErrors runtime1 exchange0 400 (Str ''Bad Request'') Undefined (Str ''POST'')
        Undefined ''{"message":"Insufficient funds"}'' =
      Inl (InsufficientFunds ''gdax Insufficient funds'')\<close>
    using handleErrors_status_400 [of \<open>''{"message":"Insufficient funds"}''\<close> runtime1
        "[(''message'', Str ''Insufficient funds'')]" "''Insufficient funds''" exchange0
        "Str ''Bad Request''" Undefined "Str ''POST''" Undefined]
    by (simp add: parse1 msg no1 no2 ident)
  have small: \<open>handleErrors runtime1 exchange0 400 (Str ''Bad Request'') Undefined (Str ''POST'')
        Undefined ''{"message":"price too small"}'' =
      Inl (InvalidOrder ''gdax price too small'')\<close>
    using handleErrors_status_400 [of \<open>''{"message":"price too small"}''\<close> runtime1
        "[(''message'', Str ''price too small'')]" "''price too small''" exchange0
        "Str ''Bad Request''" Undefined "Str ''POST''" Undefined]
    by (simp add: parse2 msg ident)
  have weird: \<open>handleErrors runtime1 exchange0 400 (Str ''Bad Request'') Undefined (Str ''POST'')
        Undefined ''{"message":"weird"}'' = Inl (ExchangeError ''gdax weird'')\<close>
    using handleErrors_status_400 [of \<open>''{"message":"weird"}''\<close> runtime1
        "[(''message'', Str ''weird'')]" "''weird''" exchange0
        "Str ''Bad Request''" Undefined "Str ''POST''" Undefined]
    by (simp add: parse3 msg no3 no4 ident)
  have plain: \<open>handleErrors runtime1 exchange0 400 (Str ''Bad Request'') Undefined (Str ''POST'')
        Undefined ''Bad Request'' = Inl (ExchangeError ''gdax Bad Request'')\<close>
    using handleErrors_status_400 [of "''Bad Request''" runtime1 "[]" "[]" exchange0
        "Str ''Bad Request''" Undefined "Str ''POST''" Undefined]
    by (simp add: ident)
  from parse1 funds small weird plain show ?thesis by simp
qed

text \<open>
  Three bodies of status 400 outside these two cases. A JSON object behind a leading
  space whose message is \<open>Insufficient funds\<close> is taken for plain text: ExchangeError
  with the text of the body, not InsufficientFunds. The empty JSON object has no
  message to search: a TypeError. And a body that starts with an opening brace and is
  no JSON ends in the SyntaxError of the parser, not in an ExchangeError with its text.
\<close>

theorem handleErrors_status_400_counterexample:
  \<open>JSON_parse runtime1 '' {"message":"Insufficient funds"}'' =
       Some (Obj [(''message'', Str ''Insufficient funds'')])
   \<and> handleErrors runtime1 exchange0 400 (Str ''Bad Request'') Undefined (Str ''POST'') Undefined
        '' {"message":"Insufficient funds"}'' =
       Inl (ExchangeError ''gdax  {"message":"Insufficient funds"}'')
   \<and> handleErrors runtime1 exchange0 400 (Str ''Bad Request'') Undefined (Str ''POST'') Undefined
        '' {"message":"Insufficient funds"}'' \<noteq>
       Inl (InsufficientFunds ''gdax Insufficient funds'')
   \<and> JSON_parse runtime1 ''{}'' = Some (Obj [])
   \<and> handleErrors runtime1 exchange0 400 (Str ''Bad Request'') Undefined (Str ''POST'') Undefined
        ''{}'' = Inl TypeError
   \<and> JSON_parse runtime1 ''{bad'' = None
   \<and> handleErrors runtime1 exchange0 400 (Str ''Bad Request'') Undefined (Str ''POST'') Undefined
        ''{bad'' = Inl SyntaxError
   \<and> handleErrors runtime1 exchange0 400 (Str ''Bad Request'') Undefined (Str ''POST'') Undefined
        ''{bad'' \<noteq> Inl (ExchangeError ''gdax {bad'')\<close>
  by (simp add: handleErrors_def runtime1_def JSON_parse1_def exchange0_def js_member_def
      js_prop_def js_get_def js_indexOf_def Let_def)

end
